theory Spec2Isabelle
  imports Main
begin

section \<open>Values and strings of the dashboard script\<close>

text \<open>
  The script \<^verbatim>\<open>frontend/app.js\<close> receives JSON from the backend and writes
  it into the page. The values it reads are the scalars of JSON and the value
  \<^verbatim>\<open>undefined\<close> of a field that is absent. The script never computes with a
  number: it converts it to text or tests its truth value. A number is therefore
  carried by its canonical decimal rendering, the text that \<^verbatim>\<open>String(n)\<close>
  returns (\<^verbatim>\<open>0\<close> and \<^verbatim>\<open>-0\<close> both render as \<^verbatim>\<open>0\<close>).
  Strings are lists of 8-bit characters; text outside ASCII is its UTF-8 bytes.
\<close>

datatype jsval = Undefined | Null | Bool bool | Num string | Str string

text \<open>\<^verbatim>\<open>String(v)\<close>.\<close>

fun ToString :: "jsval \<Rightarrow> string" where
  "ToString Undefined = ''undefined''"
| "ToString Null = ''null''"
| "ToString (Bool b) = (if b then ''true'' else ''false'')"
| "ToString (Num n) = n"
| "ToString (Str s) = s"

text \<open>
  The truth value of \<^verbatim>\<open>v\<close> in a condition: \<^verbatim>\<open>undefined\<close>, \<^verbatim>\<open>null\<close>,
  \<^verbatim>\<open>false\<close>, the numbers zero and NaN and the empty string are false.
\<close>

fun truthy :: "jsval \<Rightarrow> bool" where
  "truthy Undefined = False"
| "truthy Null = False"
| "truthy (Bool b) = b"
| "truthy (Num n) = (n \<noteq> ''0'' \<and> n \<noteq> ''NaN'')"
| "truthy (Str s) = (s \<noteq> [])"

text \<open>
  \<^verbatim>\<open>s.toLowerCase()\<close> on the letters of ASCII; every other character is
  kept as it is.
\<close>

definition lower_char :: "char \<Rightarrow> char" where
  "lower_char c =
     (let n = (of_char c :: nat) in if 65 \<le> n \<and> n \<le> 90 then char_of (n + 32) else c)"

definition toLowerCase :: "string \<Rightarrow> string" where
  "toLowerCase s = map lower_char s"

text \<open>\<^verbatim>\<open>s.startsWith(t)\<close> and \<^verbatim>\<open>s.includes(t)\<close>: \<open>t\<close> occurs in \<open>s\<close> as a substring.\<close>

fun startsWith :: "string \<Rightarrow> string \<Rightarrow> bool" where
  "startsWith s [] = True"
| "startsWith [] (c # t) = False"
| "startsWith (b # s) (c # t) = (b = c \<and> startsWith s t)"

fun includes_str :: "string \<Rightarrow> string \<Rightarrow> bool" where
  "includes_str [] t = (t = [])"
| "includes_str (c # s) t = (startsWith (c # s) t \<or> includes_str s t)"

section \<open>Status badges\<close>

definition mapStatusToBadge :: "jsval \<Rightarrow> string" where
  "mapStatusToBadge status =
     (if \<not> truthy status then ''muted''
      else let s = toLowerCase (ToString status) in
        if includes_str s ''open'' \<or> includes_str s ''active'' \<or> includes_str s ''live'' then ''success''
        else if includes_str s ''closed'' \<or> includes_str s ''filled'' \<or> includes_str s ''cancel'' then ''muted''
        else if includes_str s ''partial'' \<or> includes_str s ''warning'' \<or> includes_str s ''risk'' then ''warning''
        else ''muted'')"


section \<open>More of the runtime: text of a node, joining, trimming\<close>

text \<open>
  \<^verbatim>\<open>node.textContent = v\<close> stores the empty text for \<^verbatim>\<open>null\<close> and
  \<^verbatim>\<open>undefined\<close> and \<^verbatim>\<open>String(v)\<close> otherwise.
\<close>

fun textContent :: "jsval \<Rightarrow> string" where
  "textContent Undefined = []"
| "textContent Null = []"
| "textContent v = ToString v"

text \<open>\<^verbatim>\<open>a ?? b\<close>.\<close>

fun nullish :: "jsval \<Rightarrow> jsval \<Rightarrow> jsval" where
  "nullish Undefined b = b"
| "nullish Null b = b"
| "nullish a b = a"

text \<open>\<^verbatim>\<open>xs.join(sep)\<close> on an array of strings.\<close>

fun join :: "string \<Rightarrow> string list \<Rightarrow> string" where
  "join sep [] = []"
| "join sep [a] = a"
| "join sep (a # b # bs) = a @ sep @ join sep (b # bs)"

text \<open>\<^verbatim>\<open>s.trim()\<close>, on the white space of ASCII.\<close>

definition is_space :: "char \<Rightarrow> bool" where
  "is_space c = (c = CHR 0x09 \<or> c = CHR 0x0A \<or> c = CHR 0x0B \<or> c = CHR 0x0C \<or> c = CHR 0x0D \<or> c = CHR 0x20)"

definition trim :: "string \<Rightarrow> string" where
  "trim s = rev (dropWhile is_space (rev (dropWhile is_space s)))"

text \<open>
  A JSON object is a map from its keys to their values; \<^verbatim>\<open>o[k]\<close> is
  \<^verbatim>\<open>undefined\<close> for a key the object does not have.
\<close>

type_synonym obj = "string \<rightharpoonup> jsval"

definition get :: "obj \<Rightarrow> string \<Rightarrow> jsval" where
  "get o1 k = (case o1 k of None \<Rightarrow> Undefined | Some v \<Rightarrow> v)"

section \<open>Responses of the backend\<close>

text \<open>
  A fetch resolves with a status code and a body. \<^verbatim>\<open>res.json()\<close> rejects with
  a SyntaxError when the body is not JSON (\<open>None\<close>); otherwise the body is a JSON
  value, which is an array or not. The elements of the arrays of
  \<^verbatim>\<open>/api/analysis/{symbol}\<close> and \<^verbatim>\<open>/api/positions\<close> are objects, those of
  \<^verbatim>\<open>/api/analysis_files\<close> are scalars.
\<close>

datatype 'a json = NotArray | Array "'a list"

record 'a response =
  status_code :: nat
  body :: "'a json option"

text \<open>\<^verbatim>\<open>res.ok\<close>.\<close>

definition ok :: "'a response \<Rightarrow> bool" where
  "ok res = (200 \<le> status_code res \<and> status_code res \<le> 299)"

section \<open>The page\<close>

text \<open>
  A table cell holds one run of text, directly (the cells that \<^verbatim>\<open>renderTable\<close>
  builds, and the header cells) or inside a \<^verbatim>\<open>span\<close> with a class (the status
  cell of a position). A body row has its cells and its \<^verbatim>\<open>style.display\<close>.
\<close>

datatype cell = Text string | Span string string

fun cell_text :: "cell \<Rightarrow> string" where
  "cell_text (Text s) = s"
| "cell_text (Span cls s) = s"

record row =
  cells :: "cell list"
  display :: string

record dom_table =
  thead :: "cell list"
  tbody :: "row list"

record option_el =
  opt_value :: string
  opt_text :: string

text \<open>One call of \<^verbatim>\<open>Plotly.newPlot\<close>: the trace, the title and the font colour of the layout.\<close>

record chart =
  chart_x :: "jsval list"
  chart_y :: "jsval list"
  chart_type :: string
  marker_color :: string
  title :: string
  font_color :: string

record download =
  filename :: string
  mime :: string
  content :: string

text \<open>
  The state the script reads and writes. The elements it uses without a test
  (\<^verbatim>\<open>#symbol\<close>, \<^verbatim>\<open>#table\<close>, the two chart containers) are there; the elements it
  tests for (\<^verbatim>\<open>#themeToggle\<close>, \<^verbatim>\<open>#positionsTable\<close>) are optional.
  \<^item> \<open>data_theme\<close>: the attribute \<^verbatim>\<open>data-theme\<close> of the document element;
  \<^item> \<open>localStorage\<close>: the storage of the page;
  \<^item> \<open>themeToggle\<close>: the \<^verbatim>\<open>checked\<close> state of the toggle, when the page has one;
  \<^item> \<open>symbolSel\<close>: the options of the selection control;
  \<^item> \<open>table_div\<close>: the table inside \<^verbatim>\<open>#table\<close>, if any;
  \<^item> \<open>positionsTable\<close>: the container \<^verbatim>\<open>#positionsTable\<close>, when the page has
    one, and the table inside it, if any;
  \<^item> \<open>volChart\<close>, \<open>rangeChart\<close>: what was last plotted in the two chart containers;
  \<^item> \<open>css_text\<close>: the computed value of the CSS variable \<^verbatim>\<open>--text\<close>;
  \<^item> \<open>alerts\<close>: the messages shown by \<^verbatim>\<open>alert\<close>, oldest first;
  \<^item> \<open>downloads\<close>: the files handed to the browser for download, oldest first.
\<close>

record dom =
  data_theme :: "string option"
  localStorage :: "string \<rightharpoonup> string"
  themeToggle :: "bool option"
  symbolSel :: "option_el list"
  table_div :: "dom_table option"
  positionsTable :: "dom_table option option"
  volChart :: "chart option"
  rangeChart :: "chart option"
  css_text :: string
  alerts :: "string list"
  downloads :: "download list"

text \<open>
  A handler returns, or throws after some of its writes: an \<^verbatim>\<open>async\<close> handler
  that throws leaves a rejected promise behind, and the page as it was at the throw.
\<close>

datatype error = SyntaxError | TypeError

datatype outcome = Returned dom | Threw error dom

fun final :: "outcome \<Rightarrow> dom" where
  "final (Returned d) = d"
| "final (Threw e d) = d"

definition alert :: "string \<Rightarrow> dom \<Rightarrow> dom" where
  "alert msg d = d\<lparr>alerts := alerts d @ [msg]\<rparr>"

section \<open>Theme\<close>

text \<open>Lines 3 to 7: the saved theme is applied when the page has loaded.\<close>

definition savedTheme :: "dom \<Rightarrow> string" where
  "savedTheme d =
     (case localStorage d ''theme'' of
        None \<Rightarrow> ''dark''
      | Some s \<Rightarrow> if s = [] then ''dark'' else s)"

definition theme_init :: "dom \<Rightarrow> dom" where
  "theme_init d =
     (let saved = savedTheme d;
          d1 = (if saved = ''light'' then d\<lparr>data_theme := Some ''light''\<rparr>
                else d\<lparr>data_theme := None\<rparr>)
      in case themeToggle d1 of
           None \<Rightarrow> d1
         | Some c \<Rightarrow> d1\<lparr>themeToggle := Some (saved = ''light'')\<rparr>)"

text \<open>
  Lines 9 to 17: the \<^verbatim>\<open>change\<close> handler of the toggle, which reads the state the
  toggle has after the user's click.
\<close>

definition themeToggle_change :: "dom \<Rightarrow> dom" where
  "themeToggle_change d =
     (case themeToggle d of
        None \<Rightarrow> d
      | Some checked \<Rightarrow>
          if checked
          then d\<lparr>data_theme := Some ''light'', localStorage := (localStorage d)(''theme'' \<mapsto> ''light'')\<rparr>
          else d\<lparr>data_theme := None, localStorage := (localStorage d)(''theme'' \<mapsto> ''dark'')\<rparr>)"

text \<open>The user's click on the toggle: the state flips, then the handler runs.\<close>

definition themeToggle_click :: "dom \<Rightarrow> dom" where
  "themeToggle_click d = themeToggle_change (d\<lparr>themeToggle := map_option Not (themeToggle d)\<rparr>)"

section \<open>Symbols\<close>

definition fetchSymbols :: "jsval response \<Rightarrow> dom \<Rightarrow> outcome" where
  "fetchSymbols res d =
     (case body res of
        None \<Rightarrow> Threw SyntaxError d
      | Some NotArray \<Rightarrow> Threw TypeError (d\<lparr>symbolSel := []\<rparr>)
      | Some (Array list) \<Rightarrow>
          Returned (d\<lparr>symbolSel :=
            foldl (\<lambda>opts s. opts @ [\<lparr>opt_value = ToString s, opt_text = textContent s\<rparr>]) [] list\<rparr>))"

section \<open>Analysis: charts and table\<close>

definition renderCharts :: "obj json \<Rightarrow> dom \<Rightarrow> outcome" where
  "renderCharts data d =
     (case data of
        NotArray \<Rightarrow> Threw TypeError d
      | Array rs \<Rightarrow>
          let hours = map (\<lambda>r. get r ''hour_utc'') rs;
              vol = map (\<lambda>r. get r ''avg_volume'') rs;
              range = map (\<lambda>r. get r ''avg_range'') rs;
              cssColor = (if css_text d = [] then ''#e8eef6'' else css_text d)
          in Returned (d\<lparr>
               volChart := Some \<lparr>chart_x = hours, chart_y = vol, chart_type = ''bar'',
                 marker_color = ''#0b7fda'', title = ''Volumen Promedio por Hora UTC'',
                 font_color = trim cssColor\<rparr>,
               rangeChart := Some \<lparr>chart_x = hours, chart_y = range, chart_type = ''bar'',
                 marker_color = ''#0f9b8e'', title = ''Rango Promedio por Hora UTC'',
                 font_color = trim cssColor\<rparr>\<rparr>))"

definition renderTable :: "obj json \<Rightarrow> dom \<Rightarrow> outcome" where
  "renderTable data d =
     (let d1 = d\<lparr>table_div := None\<rparr>;
          headerRow = foldl (\<lambda>tr h. tr @ [Text h]) [] [''hour_utc'', ''avg_volume'', ''avg_range'']
      in case data of
           NotArray \<Rightarrow> Threw TypeError d1
         | Array rs \<Rightarrow>
             Returned (d1\<lparr>table_div := Some \<lparr>thead = headerRow,
               tbody = foldl (\<lambda>trs r. trs @
                 [\<lparr>cells = foldl (\<lambda>tr c. tr @ [Text (textContent c)]) []
                            [get r ''hour_utc'', get r ''avg_volume'', get r ''avg_range''],
                   display = []\<rparr>]) [] rs\<rparr>\<rparr>))"

definition loadAnalysis :: "obj response \<Rightarrow> dom \<Rightarrow> outcome" where
  "loadAnalysis res d =
     (if \<not> ok res
      then Returned (alert (''Error cargando an'' @ [CHR 0xC3, CHR 0xA1] @ ''lisis'') d)
      else case body res of
             None \<Rightarrow> Threw SyntaxError d
           | Some data \<Rightarrow>
               (case renderCharts data d of
                  Threw e d1 \<Rightarrow> Threw e d1
                | Returned d1 \<Rightarrow> renderTable data d1))"

section \<open>Positions\<close>

definition renderPositionsTable :: "obj json \<Rightarrow> dom \<Rightarrow> outcome" where
  "renderPositionsTable positions d =
     (case positionsTable d of
        None \<Rightarrow> Returned d
      | Some old \<Rightarrow>
          let d1 = d\<lparr>positionsTable := Some None\<rparr>;
              headerRow = foldl (\<lambda>tr h. tr @ [Text h]) []
                            [''symbol'', ''side'', ''size'', ''entry_price'', ''status'']
          in case positions of
               NotArray \<Rightarrow> Threw TypeError d1
             | Array ps \<Rightarrow>
                 Returned (d1\<lparr>positionsTable := Some (Some \<lparr>thead = headerRow,
                   tbody = foldl (\<lambda>trs p. trs @
                     [\<lparr>cells =
                         foldl (\<lambda>tr k. tr @ [Text (textContent (nullish (get p k) (Str [])))]) []
                           [''symbol'', ''side'', ''size'', ''entry_price'']
                         @ [Span (''badge '' @ mapStatusToBadge (get p ''status''))
                                 (textContent (nullish (get p ''status'') (Str [])))],
                       display = []\<rparr>]) [] ps\<rparr>)\<rparr>))"

definition positionsBtn_click :: "obj response \<Rightarrow> dom \<Rightarrow> outcome" where
  "positionsBtn_click res d =
     (if \<not> ok res then Returned (alert ''Error cargando posiciones'' d)
      else case body res of
             None \<Rightarrow> Threw SyntaxError d
           | Some data \<Rightarrow> renderPositionsTable data d)"

section \<open>Toolbar: filter and export\<close>

text \<open>
  The text of a cell as the page shows it. The cells hold one run of text and are
  laid out with the initial \<^verbatim>\<open>white-space: normal\<close>: every run of spaces, tabs,
  line feeds and carriage returns collapses to one space, and the white space at
  the start and at the end of the cell is dropped. The style sheet is not part of
  the sources; it is taken to change the text of a cell in no other way.
\<close>

definition is_collapsible :: "char \<Rightarrow> bool" where
  "is_collapsible c = (c = CHR 0x20 \<or> c = CHR 0x09 \<or> c = CHR 0x0A \<or> c = CHR 0x0D)"

text \<open>\<open>collapse_ws after_space s\<close>: \<open>after_space\<close> says that a space was just put out (or that
  the text starts here), so that further white space is dropped.\<close>

fun collapse_ws :: "bool \<Rightarrow> string \<Rightarrow> string" where
  "collapse_ws after_space [] = []"
| "collapse_ws after_space (c # s) =
     (if is_collapsible c
      then (if after_space then collapse_ws True s else CHR 0x20 # collapse_ws True s)
      else c # collapse_ws False s)"

definition rendered_text :: "string \<Rightarrow> string" where
  "rendered_text s =
     (let t = collapse_ws True s in if t \<noteq> [] \<and> last t = CHR 0x20 then butlast t else t)"

text \<open>
  \<^verbatim>\<open>c.innerText\<close> of a cell: the text as shown when the cell is rendered, and the
  text content as it was stored when it is not (a cell of a row with
  \<^verbatim>\<open>display: none\<close>).
  \<^verbatim>\<open>tr.innerText\<close> of a row: for a row that is rendered, the shown texts of its
  cells with a tab between two cells; for a row that is not rendered, its text
  content, which is the stored texts of its cells with nothing between them.
\<close>

definition innerText_cell :: "bool \<Rightarrow> cell \<Rightarrow> string" where
  "innerText_cell rendered c = (if rendered then rendered_text (cell_text c) else cell_text c)"

definition innerText :: "row \<Rightarrow> string" where
  "innerText tr =
     (if display tr = ''none'' then concat (map cell_text (cells tr))
      else join [CHR 0x09] (map (innerText_cell True) (cells tr)))"

definition filter_tr :: "string \<Rightarrow> row \<Rightarrow> row" where
  "filter_tr q tr =
     (let text = toLowerCase (innerText tr)
      in tr\<lparr>display := (if q = [] \<or> includes_str text q then [] else ''none'')\<rparr>)"

definition filter_table :: "string \<Rightarrow> dom_table \<Rightarrow> dom_table" where
  "filter_table q t = t\<lparr>tbody := map (filter_tr q) (tbody t)\<rparr>"

definition filterTables :: "string \<Rightarrow> dom \<Rightarrow> dom" where
  "filterTables q d =
     d\<lparr>table_div := map_option (filter_table q) (table_div d),
       positionsTable := map_option (map_option (filter_table q)) (positionsTable d)\<rparr>"

text \<open>Line 143: the \<^verbatim>\<open>input\<close> handler of the search box, on the text in the box.\<close>

definition globalSearch_input :: "string \<Rightarrow> dom \<Rightarrow> dom" where
  "globalSearch_input v d = filterTables (trim (toLowerCase v)) d"

text \<open>\<^verbatim>\<open>'"' + String(t).replace(/"/g, '""') + '"'\<close>.\<close>

definition quote :: "string \<Rightarrow> string" where
  "quote t = [CHR 0x22] @ concat (map (\<lambda>c. if c = CHR 0x22 then [CHR 0x22, CHR 0x22] else [c]) t) @ [CHR 0x22]"

text \<open>
  The rows of a table in document order: the header row, whose display the script
  never sets, then the body rows.
\<close>

definition table_rows :: "dom_table \<Rightarrow> row list" where
  "table_rows t = \<lparr>cells = thead t, display = []\<rparr> # tbody t"

definition table_csv :: "dom_table \<Rightarrow> string" where
  "table_csv t =
     foldl (\<lambda>csv r. csv @
         join '','' (map (\<lambda>c. quote (innerText_cell (display r \<noteq> ''none'') c)) (cells r)) @ [CHR 0x0A])
       [] (table_rows t)"

definition exportCurrentTableCSV :: "dom \<Rightarrow> dom" where
  "exportCurrentTableCSV d =
     (case table_div d of
        None \<Rightarrow> alert ''No hay tabla para exportar'' d
      | Some t \<Rightarrow>
          d\<lparr>downloads := downloads d @
            [\<lparr>filename = ''analysis_export.csv'', mime = ''text/csv;charset=utf-8;'',
              content = table_csv t\<rparr>]\<rparr>)"

section \<open>Example pages and records\<close>

text \<open>A page with a toggle, an empty positions container, no table and no saved theme.\<close>

definition page0 :: dom where
  "page0 = \<lparr>data_theme = None, localStorage = Map.empty, themeToggle = Some False,
     symbolSel = [], table_div = None, positionsTable = Some None, volChart = None,
     rangeChart = None, css_text = '' #e8eef6'', alerts = [], downloads = []\<rparr>"

definition stat0 :: obj where
  "stat0 = [''hour_utc'' \<mapsto> Num ''0'', ''avg_volume'' \<mapsto> Num ''10'', ''avg_range'' \<mapsto> Num ''1'']"

definition stat1 :: obj where
  "stat1 = [''hour_utc'' \<mapsto> Num ''1'', ''avg_volume'' \<mapsto> Num ''20'', ''avg_range'' \<mapsto> Num ''2'']"

definition stat3 :: obj where
  "stat3 = [''hour_utc'' \<mapsto> Num ''3'', ''avg_volume'' \<mapsto> Num ''120.5'', ''avg_range'' \<mapsto> Num ''0.02'']"

text \<open>A position with no \<^verbatim>\<open>side\<close>, a null price and the size zero.\<close>

definition pos_btc :: obj where
  "pos_btc = [''symbol'' \<mapsto> Str ''BTC/USD'', ''size'' \<mapsto> Num ''0'',
     ''entry_price'' \<mapsto> Null, ''status'' \<mapsto> Str ''Open'']"

text \<open>A response of a backend that failed.\<close>

definition res500 :: "obj response" where
  "res500 = \<lparr>status_code = 500, body = None\<rparr>"

text \<open>A page that shows one analysis row and one position.\<close>

definition page1 :: dom where
  "page1 = page0\<lparr>
     table_div := Some \<lparr>thead = [Text ''hour_utc'', Text ''avg_volume'', Text ''avg_range''],
       tbody = [\<lparr>cells = [Text ''3'', Text ''120.5'', Text ''0.02''], display = []\<rparr>]\<rparr>,
     positionsTable := Some (Some \<lparr>
       thead = [Text ''symbol'', Text ''side'', Text ''size'', Text ''entry_price'', Text ''status''],
       tbody = [\<lparr>cells = [Text ''BTC/USD'', Text [], Text ''0'', Text [],
                  Span ''badge success'' ''Open''], display = []\<rparr>]\<rparr>)\<rparr>"

text \<open>A position whose symbol ends in \<open>B\<close> and whose side is \<open>TC\<close>, and the page that shows it.\<close>

definition pos_xb :: obj where
  "pos_xb = [''symbol'' \<mapsto> Str ''XB'', ''side'' \<mapsto> Str ''TC'', ''size'' \<mapsto> Num ''1'',
     ''entry_price'' \<mapsto> Num ''2'', ''status'' \<mapsto> Str ''Closed'']"

definition page_xb :: dom where
  "page_xb = final (renderPositionsTable (Array [pos_xb]) page0)"




section \<open>Properties of the string operations\<close>

lemma startsWith_iff: "startsWith s t \<longleftrightarrow> (\<exists>r. s = t @ r)"
  by (induction s t rule: startsWith.induct) auto

lemma includes_iff: "includes_str s t \<longleftrightarrow> (\<exists>p r. s = p @ t @ r)"
proof (induction s)
  case Nil
  then show ?case by auto
next
  case (Cons c s)
  show ?case
  proof
    assume "includes_str (c # s) t"
    then consider "startsWith (c # s) t" | "includes_str s t" by auto
    then show "\<exists>p r. c # s = p @ t @ r"
    proof cases
      case 1
      then obtain r where "c # s = t @ r" using startsWith_iff by blast
      then have "c # s = [] @ t @ r" by simp
      then show ?thesis by blast
    next
      case 2
      then obtain p r where "s = p @ t @ r" using Cons.IH by blast
      then have "c # s = (c # p) @ t @ r" by simp
      then show ?thesis by blast
    qed
  next
    assume "\<exists>p r. c # s = p @ t @ r"
    then obtain p r where e: "c # s = p @ t @ r" by blast
    show "includes_str (c # s) t"
    proof (cases p)
      case Nil
      with e have "startsWith (c # s) t" using startsWith_iff by auto
      then show ?thesis by simp
    next
      case (Cons a p')
      with e have "s = p' @ t @ r" by simp
      then have "includes_str s t" using Cons.IH by blast
      then show ?thesis by simp
    qed
  qed
qed

section \<open>Loops that append\<close>

lemma foldl_snoc: "foldl (\<lambda>acc a. acc @ [f a]) start xs = start @ map f xs"
  by (induction xs arbitrary: start) simp_all

lemma foldl_append: "foldl (\<lambda>acc a. acc @ f a) start xs = start @ concat (map f xs)"
  by (induction xs arbitrary: start) simp_all

section \<open>The text of a false value\<close>

lemma lower_consts:
  "toLowerCase ''undefined'' = ''undefined''" "toLowerCase ''null'' = ''null''"
  "toLowerCase ''false'' = ''false''" "toLowerCase ''0'' = ''0''" "toLowerCase ''NaN'' = ''nan''"
  "toLowerCase [] = []"
  by code_simp+

lemma falsy_no_keyword:
  "\<not> truthy v \<Longrightarrow> toLowerCase (ToString v) \<in> {''undefined'', ''null'', ''false'', ''0'', ''nan'', []}"
  by (cases v) (auto simp: lower_consts)

section \<open>Filtering keeps the cells\<close>





text \<open>A text with no white space, such as the rendering of a number, is shown as it is stored.\<close>

lemma collapse_ws_no_white_space:
  assumes "list_all (\<lambda>c. \<not> is_collapsible c) s"
  shows "collapse_ws b s = s"
  using assms by (induction s arbitrary: b) simp_all

lemma rendered_text_no_white_space:
  assumes "list_all (\<lambda>c. \<not> is_collapsible c) s"
  shows "rendered_text s = s"
proof (cases "s = []")
  case True
  then show ?thesis by (simp add: rendered_text_def)
next
  case False
  then have "last s \<in> set s" by simp
  with assms have "\<not> is_collapsible (last s)" by (simp add: list_all_iff)
  then have "last s \<noteq> CHR 0x20" by (auto simp: is_collapsible_def)
  then show ?thesis
    by (simp add: rendered_text_def collapse_ws_no_white_space [OF assms])
qed



section \<open>Verified properties of the handlers\<close>

text \<open>
  C1. For every status value, \<open>mapStatusToBadge\<close> returns \<open>success\<close> if the
  lower-cased string contains \<open>open\<close>, \<open>active\<close> or \<open>live\<close>; otherwise \<open>muted\<close>
  if it contains \<open>closed\<close>, \<open>filled\<close> or \<open>cancel\<close>; otherwise \<open>warning\<close> if it
  contains \<open>partial\<close>, \<open>warning\<close> or \<open>risk\<close>; otherwise \<open>muted\<close>, which is also
  the badge of an empty, a null and an absent status. The checks are made in this
  order, so a status with keywords of two groups gets the badge of the earlier group.
\<close>

theorem mapStatusToBadge_keywords:
  "mapStatusToBadge status =
     (let s = toLowerCase (ToString status) in
        if includes_str s ''open'' \<or> includes_str s ''active'' \<or> includes_str s ''live'' then ''success''
        else if includes_str s ''closed'' \<or> includes_str s ''filled'' \<or> includes_str s ''cancel'' then ''muted''
        else if includes_str s ''partial'' \<or> includes_str s ''warning'' \<or> includes_str s ''risk'' then ''warning''
        else ''muted'')
   \<and> mapStatusToBadge (Str []) = ''muted''
   \<and> mapStatusToBadge Null = ''muted''
   \<and> mapStatusToBadge Undefined = ''muted''
   \<and> mapStatusToBadge (Str ''Closed, then re-OPENED'') = ''success''
   \<and> mapStatusToBadge (Str ''Partially Filled'') = ''muted''"
proof (intro conjI)
  show "mapStatusToBadge status =
     (let s = toLowerCase (ToString status) in
        if includes_str s ''open'' \<or> includes_str s ''active'' \<or> includes_str s ''live'' then ''success''
        else if includes_str s ''closed'' \<or> includes_str s ''filled'' \<or> includes_str s ''cancel'' then ''muted''
        else if includes_str s ''partial'' \<or> includes_str s ''warning'' \<or> includes_str s ''risk'' then ''warning''
        else ''muted'')"
  proof (cases "truthy status")
    case True
    then show ?thesis by (simp add: mapStatusToBadge_def)
  next
    case False
    from falsy_no_keyword [OF this] show ?thesis
      using False by (auto simp: mapStatusToBadge_def)
  qed
  show "mapStatusToBadge (Str []) = ''muted''" by (simp add: mapStatusToBadge_def)
  show "mapStatusToBadge Null = ''muted''" by (simp add: mapStatusToBadge_def)
  show "mapStatusToBadge Undefined = ''muted''" by (simp add: mapStatusToBadge_def)
  show "mapStatusToBadge (Str ''Closed, then re-OPENED'') = ''success''" by code_simp
  show "mapStatusToBadge (Str ''Partially Filled'') = ''muted''" by code_simp
qed

text \<open>
  C2. When the response to the fetch of \<open>loadAnalysis\<close> or of the positions load
  is not a 2xx response, the handler shows one alert and changes nothing else:
  nothing is rendered and the tables and charts on the page stay as they were.
\<close>

theorem non_2xx_alert_only:
  assumes "\<not> ok res"
  shows "loadAnalysis res d =
           Returned (d\<lparr>alerts := alerts d @ [''Error cargando an'' @ [CHR 0xC3, CHR 0xA1] @ ''lisis'']\<rparr>)
       \<and> positionsBtn_click res d =
           Returned (d\<lparr>alerts := alerts d @ [''Error cargando posiciones'']\<rparr>)
       \<and> table_div (final (loadAnalysis res d)) = table_div d
       \<and> volChart (final (loadAnalysis res d)) = volChart d
       \<and> rangeChart (final (loadAnalysis res d)) = rangeChart d
       \<and> positionsTable (final (loadAnalysis res d)) = positionsTable d
       \<and> table_div (final (positionsBtn_click res d)) = table_div d
       \<and> positionsTable (final (positionsBtn_click res d)) = positionsTable d"
  using assms by (simp add: loadAnalysis_def positionsBtn_click_def alert_def)

theorem non_2xx_alert_only_witness:
  "\<not> ok res500
   \<and> positionsBtn_click res500 page1 = Returned (page1\<lparr>alerts := [''Error cargando posiciones'']\<rparr>)
   \<and> positionsTable (final (positionsBtn_click res500 page1)) = positionsTable page1
   \<and> table_div (final (loadAnalysis res500 page1)) = table_div page1"
proof -
  have h: "\<not> ok res500"
    by (simp add: ok_def res500_def)
  have a: "alerts page1 = []"
    by (simp add: page1_def page0_def)
  show ?thesis
    using h non_2xx_alert_only [OF h, of page1] by (simp add: a)
qed

text \<open>
  C3. \<open>exportCurrentTableCSV\<close> hands over one file whose content has one line for
  the header row and one for each body row: the \<^verbatim>\<open>innerText\<close> of every cell (the
  text as shown for a row that is shown, the stored text for a hidden row) between
  double quotes, a double quote inside the text written twice, the cells of a row
  joined by commas, a newline after every row. For the table with the header
  \<open>hour_utc, avg_volume, avg_range\<close> and the single row \<open>3, 120.5, 0.02\<close>, built
  by hand or by \<open>renderTable\<close>, shown or hidden, the content is the two lines
  \<^verbatim>\<open>"hour_utc","avg_volume","avg_range"\<close> and \<^verbatim>\<open>"3","120.5","0.02"\<close>,
  each with its newline.
\<close>

theorem exportCurrentTableCSV_content:
  "exportCurrentTableCSV (d\<lparr>table_div := Some t\<rparr>) =
     d\<lparr>table_div := Some t,
       downloads := downloads d @
         [\<lparr>filename = ''analysis_export.csv'', mime = ''text/csv;charset=utf-8;'',
           content = concat (map (\<lambda>r. join '',''
               (map (\<lambda>c. quote (if display r = ''none'' then cell_text c else rendered_text (cell_text c)))
                  (cells r)) @ [CHR 0x0A])
             (\<lparr>cells = thead t, display = []\<rparr> # tbody t))\<rparr>]\<rparr>
   \<and> quote (''3 '' @ [CHR 0x22] @ ''b'') = [CHR 0x22] @ ''3 '' @ [CHR 0x22, CHR 0x22] @ ''b'' @ [CHR 0x22]
   \<and> table_csv \<lparr>thead = [Text ''hour_utc'', Text ''avg_volume'', Text ''avg_range''],
         tbody = [\<lparr>cells = [Text ''3'', Text ''120.5'', Text ''0.02''], display = disp\<rparr>]\<rparr> =
       [CHR 0x22] @ ''hour_utc'' @ [CHR 0x22] @ '','' @ [CHR 0x22] @ ''avg_volume'' @ [CHR 0x22]
         @ '','' @ [CHR 0x22] @ ''avg_range'' @ [CHR 0x22] @ [CHR 0x0A]
       @ [CHR 0x22] @ ''3'' @ [CHR 0x22] @ '','' @ [CHR 0x22] @ ''120.5'' @ [CHR 0x22]
         @ '','' @ [CHR 0x22] @ ''0.02'' @ [CHR 0x22] @ [CHR 0x0A]
   \<and> map content (downloads (exportCurrentTableCSV (final (renderTable (Array [stat3]) page0)))) =
       [[CHR 0x22] @ ''hour_utc'' @ [CHR 0x22] @ '','' @ [CHR 0x22] @ ''avg_volume'' @ [CHR 0x22]
         @ '','' @ [CHR 0x22] @ ''avg_range'' @ [CHR 0x22] @ [CHR 0x0A]
       @ [CHR 0x22] @ ''3'' @ [CHR 0x22] @ '','' @ [CHR 0x22] @ ''120.5'' @ [CHR 0x22]
         @ '','' @ [CHR 0x22] @ ''0.02'' @ [CHR 0x22] @ [CHR 0x0A]]
   \<and> table_csv \<lparr>thead = [Text ''hour_utc'', Text ''avg_volume'', Text ''avg_range''],
         tbody = [\<lparr>cells = [Text ''3'', Text '' 1  2 '', Text ''0.02''], display = []\<rparr>]\<rparr> =
       [CHR 0x22] @ ''hour_utc'' @ [CHR 0x22] @ '','' @ [CHR 0x22] @ ''avg_volume'' @ [CHR 0x22]
         @ '','' @ [CHR 0x22] @ ''avg_range'' @ [CHR 0x22] @ [CHR 0x0A]
       @ [CHR 0x22] @ ''3'' @ [CHR 0x22] @ '','' @ [CHR 0x22] @ ''1 2'' @ [CHR 0x22]
         @ '','' @ [CHR 0x22] @ ''0.02'' @ [CHR 0x22] @ [CHR 0x0A]"
proof (intro conjI)
  have r: "rendered_text ''hour_utc'' = ''hour_utc''" "rendered_text ''avg_volume'' = ''avg_volume''"
    "rendered_text ''avg_range'' = ''avg_range''" "rendered_text ''3'' = ''3''"
    "rendered_text ''120.5'' = ''120.5''" "rendered_text ''0.02'' = ''0.02''"
    "rendered_text '' 1  2 '' = ''1 2''"
    by code_simp+
  have swap: "(if \<not> P then a else b) = (if P then b else a)" for P and a b :: string
    by simp
  show "exportCurrentTableCSV (d\<lparr>table_div := Some t\<rparr>) =
     d\<lparr>table_div := Some t,
       downloads := downloads d @
         [\<lparr>filename = ''analysis_export.csv'', mime = ''text/csv;charset=utf-8;'',
           content = concat (map (\<lambda>r. join '',''
               (map (\<lambda>c. quote (if display r = ''none'' then cell_text c else rendered_text (cell_text c)))
                  (cells r)) @ [CHR 0x0A])
             (\<lparr>cells = thead t, display = []\<rparr> # tbody t))\<rparr>]\<rparr>"
    by (simp add: exportCurrentTableCSV_def table_csv_def table_rows_def innerText_cell_def
        foldl_append swap if_distrib [of quote])
  show "quote (''3 '' @ [CHR 0x22] @ ''b'') = [CHR 0x22] @ ''3 '' @ [CHR 0x22, CHR 0x22] @ ''b'' @ [CHR 0x22]"
    by (simp add: quote_def)
  show "table_csv \<lparr>thead = [Text ''hour_utc'', Text ''avg_volume'', Text ''avg_range''],
         tbody = [\<lparr>cells = [Text ''3'', Text ''120.5'', Text ''0.02''], display = disp\<rparr>]\<rparr> =
       [CHR 0x22] @ ''hour_utc'' @ [CHR 0x22] @ '','' @ [CHR 0x22] @ ''avg_volume'' @ [CHR 0x22]
         @ '','' @ [CHR 0x22] @ ''avg_range'' @ [CHR 0x22] @ [CHR 0x0A]
       @ [CHR 0x22] @ ''3'' @ [CHR 0x22] @ '','' @ [CHR 0x22] @ ''120.5'' @ [CHR 0x22]
         @ '','' @ [CHR 0x22] @ ''0.02'' @ [CHR 0x22] @ [CHR 0x0A]"
    by (simp add: table_csv_def table_rows_def innerText_cell_def quote_def r)
  show "map content (downloads (exportCurrentTableCSV (final (renderTable (Array [stat3]) page0)))) =
       [[CHR 0x22] @ ''hour_utc'' @ [CHR 0x22] @ '','' @ [CHR 0x22] @ ''avg_volume'' @ [CHR 0x22]
         @ '','' @ [CHR 0x22] @ ''avg_range'' @ [CHR 0x22] @ [CHR 0x0A]
       @ [CHR 0x22] @ ''3'' @ [CHR 0x22] @ '','' @ [CHR 0x22] @ ''120.5'' @ [CHR 0x22]
         @ '','' @ [CHR 0x22] @ ''0.02'' @ [CHR 0x22] @ [CHR 0x0A]]"
    by (simp add: renderTable_def exportCurrentTableCSV_def table_csv_def table_rows_def
        innerText_cell_def quote_def stat3_def get_def page0_def r)
  show "table_csv \<lparr>thead = [Text ''hour_utc'', Text ''avg_volume'', Text ''avg_range''],
         tbody = [\<lparr>cells = [Text ''3'', Text '' 1  2 '', Text ''0.02''], display = []\<rparr>]\<rparr> =
       [CHR 0x22] @ ''hour_utc'' @ [CHR 0x22] @ '','' @ [CHR 0x22] @ ''avg_volume'' @ [CHR 0x22]
         @ '','' @ [CHR 0x22] @ ''avg_range'' @ [CHR 0x22] @ [CHR 0x0A]
       @ [CHR 0x22] @ ''3'' @ [CHR 0x22] @ '','' @ [CHR 0x22] @ ''1 2'' @ [CHR 0x22]
         @ '','' @ [CHR 0x22] @ ''0.02'' @ [CHR 0x22] @ [CHR 0x0A]"
    by (simp add: table_csv_def table_rows_def innerText_cell_def quote_def r)
qed

text \<open>
  C4. For a query that is not empty, a row is to be hidden exactly when its
  lower-cased visible text does not contain the query. \<open>filterTables\<close> reads
  \<^verbatim>\<open>tr.innerText\<close>, which is the visible text only while the row is shown: for a
  row that the previous query has hidden it is the text content, with nothing
  between the cells. So the outcome of a query depends on the queries before it.
  The position \<open>XB, TC, 1, 2, Closed\<close> has the visible text
  \<open>XB\<close>, tab, \<open>TC\<close>, tab, \<open>1\<close>, tab, \<open>2\<close>, tab, \<open>Closed\<close>, which does not
  contain \<open>btc\<close>. Typing \<open>b\<close>, \<open>bt\<close>, \<open>btc\<close> into the search box hides the row at
  \<open>bt\<close> and shows it again at \<open>btc\<close>, while \<open>btc\<close> entered at once hides it. The
  analysis row \<open>3, 120.5, 0.02\<close> is shown after \<open>3\<close>, \<open>31\<close>, \<open>312\<close> in the same
  way, and hidden by \<open>312\<close> entered at once.
\<close>

theorem filterTables_depends_on_earlier_queries:
  "map_option (map_option (map (map cell_text \<circ> cells) \<circ> tbody)) (positionsTable page_xb) =
     Some (Some [[''XB'', ''TC'', ''1'', ''2'', ''Closed'']])
   \<and> includes_str (toLowerCase (join [CHR 0x09] [''XB'', ''TC'', ''1'', ''2'', ''Closed''])) ''btc'' = False
   \<and> map_option (map_option (map display \<circ> tbody))
        (positionsTable (globalSearch_input ''bt'' (globalSearch_input ''b'' (page_xb)))) = Some (Some [''none''])
   \<and> map_option (map_option (map display \<circ> tbody))
        (positionsTable (globalSearch_input ''btc'' (globalSearch_input ''bt'' (globalSearch_input ''b'' (page_xb))))) = Some (Some [[]])
   \<and> map_option (map_option (map display \<circ> tbody))
        (positionsTable (globalSearch_input ''btc'' page_xb)) = Some (Some [''none''])
   \<and> includes_str (toLowerCase (join [CHR 0x09] [''3'', ''120.5'', ''0.02''])) ''312'' = False
   \<and> map_option (map display \<circ> tbody)
        (table_div (globalSearch_input ''312'' (globalSearch_input ''31'' (globalSearch_input ''3'' (page1))))) = Some [[]]
   \<and> map_option (map display \<circ> tbody)
        (table_div (globalSearch_input ''312'' page1)) = Some [''none'']"
  by code_simp

text \<open>
  C5. When the analysis fetch succeeds with an array of records, \<open>loadAnalysis\<close>
  returns, and the table it leaves in \<^verbatim>\<open>#table\<close> has the header
  \<open>hour_utc, avg_volume, avg_range\<close> and one body row per record, in the order of
  the array, with the texts of these three fields: nothing is sorted, merged or
  dropped. Both bar charts have the \<open>hour_utc\<close> values of the array, in its order,
  as their x values; the y values are the \<open>avg_volume\<close> and the \<open>avg_range\<close> values.
\<close>

theorem loadAnalysis_rows_in_order:
  assumes "ok res" and "body res = Some (Array rs)"
  shows "loadAnalysis res d = Returned (final (loadAnalysis res d))
       \<and> table_div (final (loadAnalysis res d)) =
           Some \<lparr>thead = [Text ''hour_utc'', Text ''avg_volume'', Text ''avg_range''],
                 tbody = map (\<lambda>r. \<lparr>cells = [Text (textContent (get r ''hour_utc'')),
                                              Text (textContent (get r ''avg_volume'')),
                                              Text (textContent (get r ''avg_range''))],
                                     display = []\<rparr>) rs\<rparr>
       \<and> map_option (\<lambda>t. length (tbody t)) (table_div (final (loadAnalysis res d))) = Some (length rs)
       \<and> map_option chart_x (volChart (final (loadAnalysis res d))) = Some (map (\<lambda>r. get r ''hour_utc'') rs)
       \<and> map_option chart_x (rangeChart (final (loadAnalysis res d))) = Some (map (\<lambda>r. get r ''hour_utc'') rs)
       \<and> map_option chart_y (volChart (final (loadAnalysis res d))) = Some (map (\<lambda>r. get r ''avg_volume'') rs)
       \<and> map_option chart_y (rangeChart (final (loadAnalysis res d))) = Some (map (\<lambda>r. get r ''avg_range'') rs)
       \<and> map_option chart_type (volChart (final (loadAnalysis res d))) = Some ''bar''
       \<and> map_option chart_type (rangeChart (final (loadAnalysis res d))) = Some ''bar''"
  using assms
  by (simp add: loadAnalysis_def renderCharts_def renderTable_def Let_def foldl_snoc)

theorem loadAnalysis_rows_in_order_witness:
  "ok \<lparr>status_code = 200, body = Some (Array [stat0, stat1])\<rparr>
   \<and> map_option (map (map cell_text \<circ> cells) \<circ> tbody)
        (table_div (final (loadAnalysis \<lparr>status_code = 200, body = Some (Array [stat0, stat1])\<rparr> page1))) =
       Some [[''0'', ''10'', ''1''], [''1'', ''20'', ''2'']]
   \<and> map_option chart_x
        (volChart (final (loadAnalysis \<lparr>status_code = 200, body = Some (Array [stat0, stat1])\<rparr> page1))) =
       Some [Num ''0'', Num ''1'']
   \<and> map_option chart_x
        (rangeChart (final (loadAnalysis \<lparr>status_code = 200, body = Some (Array [stat0, stat1])\<rparr> page1))) =
       Some [Num ''0'', Num ''1'']"
proof -
  have h: "ok \<lparr>status_code = 200, body = Some (Array [stat0, stat1])\<rparr>"
    by (simp add: ok_def)
  have b: "body \<lparr>status_code = 200, body = Some (Array [stat0, stat1])\<rparr> = Some (Array [stat0, stat1])"
    by simp
  show ?thesis
    using h loadAnalysis_rows_in_order [OF h b, of page1]
    by (simp add: stat0_def stat1_def get_def)
qed

text \<open>
  C6. On load the saved theme is \<open>dark\<close> when storage holds none. The document
  then has no \<^verbatim>\<open>data-theme\<close> attribute and the toggle is unchecked; when
  storage holds \<open>light\<close> the attribute is \<open>light\<close> and the toggle is checked. In
  every case the toggle, when the page has one, is checked exactly when the saved
  theme is \<open>light\<close>, and the attribute is set exactly then. After the user has
  switched the toggle on, storage holds \<open>light\<close>, and the next load sets the
  attribute from storage alone.
\<close>

theorem theme_init_applies_saved_theme:
  "savedTheme (d\<lparr>localStorage := st(''theme'' := None)\<rparr>) = ''dark''
   \<and> data_theme (theme_init (d\<lparr>localStorage := st(''theme'' := None)\<rparr>)) = None
   \<and> themeToggle (theme_init (d\<lparr>localStorage := st(''theme'' := None), themeToggle := Some c\<rparr>)) = Some False
   \<and> data_theme (theme_init (d\<lparr>localStorage := st(''theme'' \<mapsto> ''light'')\<rparr>)) = Some ''light''
   \<and> themeToggle (theme_init (d\<lparr>localStorage := st(''theme'' \<mapsto> ''light''), themeToggle := Some c\<rparr>)) = Some True
   \<and> themeToggle (theme_init d) = map_option (\<lambda>c. savedTheme d = ''light'') (themeToggle d)
   \<and> data_theme (theme_init d) = (if savedTheme d = ''light'' then Some ''light'' else None)
   \<and> localStorage (themeToggle_click (d\<lparr>themeToggle := Some False\<rparr>)) ''theme'' = Some ''light''
   \<and> data_theme (themeToggle_click (d\<lparr>themeToggle := Some False\<rparr>)) = Some ''light''
   \<and> data_theme (theme_init (d\<lparr>data_theme := a, themeToggle := t,
         localStorage := localStorage (themeToggle_click (d\<lparr>themeToggle := Some False\<rparr>))\<rparr>)) = Some ''light''"
  by (simp add: theme_init_def savedTheme_def themeToggle_click_def themeToggle_change_def Let_def
      split: option.split)

text \<open>
  C7. \<open>renderPositionsTable\<close> builds one row per position with the cells
  \<open>symbol, side, size, entry_price, status\<close>. A field that is null or absent is
  shown as the empty text; every other value, also a false one such as \<open>0\<close>,
  \<open>false\<close> or the empty string, is shown as its own text. The status text sits in a
  \<^verbatim>\<open>span\<close> whose class is \<open>badge\<close>, a blank and the badge of the status.
\<close>

theorem renderPositionsTable_cells:
  "renderPositionsTable (Array ps) (d\<lparr>positionsTable := Some old\<rparr>) =
     Returned (d\<lparr>positionsTable := Some (Some
       \<lparr>thead = [Text ''symbol'', Text ''side'', Text ''size'', Text ''entry_price'', Text ''status''],
        tbody = map (\<lambda>p. \<lparr>cells =
                  [Text (textContent (get p ''symbol'')), Text (textContent (get p ''side'')),
                   Text (textContent (get p ''size'')), Text (textContent (get p ''entry_price'')),
                   Span (''badge '' @ mapStatusToBadge (get p ''status'')) (textContent (get p ''status''))],
                 display = []\<rparr>) ps\<rparr>)\<rparr>)
   \<and> textContent v = (case v of Undefined \<Rightarrow> [] | Null \<Rightarrow> [] | Bool b \<Rightarrow> (if b then ''true'' else ''false'')
                                 | Num n \<Rightarrow> n | Str s \<Rightarrow> s)
   \<and> textContent (nullish (Num ''0'') (Str [])) = ''0''
   \<and> textContent (nullish (Bool False) (Str [])) = ''false''
   \<and> textContent (nullish Null (Str [])) = []
   \<and> textContent (nullish Undefined (Str [])) = []
   \<and> map_option (map_option (map cells \<circ> tbody))
        (positionsTable (final (renderPositionsTable (Array [pos_btc]) page0))) =
       Some (Some [[Text ''BTC/USD'', Text [], Text ''0'', Text [], Span ''badge success'' ''Open'']])"
proof (intro conjI)
  have n: "textContent (nullish w (Str [])) = textContent w" for w
    by (cases w) simp_all
  show "renderPositionsTable (Array ps) (d\<lparr>positionsTable := Some old\<rparr>) =
     Returned (d\<lparr>positionsTable := Some (Some
       \<lparr>thead = [Text ''symbol'', Text ''side'', Text ''size'', Text ''entry_price'', Text ''status''],
        tbody = map (\<lambda>p. \<lparr>cells =
                  [Text (textContent (get p ''symbol'')), Text (textContent (get p ''side'')),
                   Text (textContent (get p ''size'')), Text (textContent (get p ''entry_price'')),
                   Span (''badge '' @ mapStatusToBadge (get p ''status'')) (textContent (get p ''status''))],
                 display = []\<rparr>) ps\<rparr>)\<rparr>)"
    by (simp add: renderPositionsTable_def Let_def foldl_snoc n)
  show "textContent v = (case v of Undefined \<Rightarrow> [] | Null \<Rightarrow> [] | Bool b \<Rightarrow> (if b then ''true'' else ''false'')
                                 | Num n \<Rightarrow> n | Str s \<Rightarrow> s)"
    by (cases v) simp_all
  show "textContent (nullish (Num ''0'') (Str [])) = ''0''" by simp
  show "textContent (nullish (Bool False) (Str [])) = ''false''" by simp
  show "textContent (nullish Null (Str [])) = []" by simp
  show "textContent (nullish Undefined (Str [])) = []" by simp
  have b: "mapStatusToBadge (Str ''Open'') = ''success''" by code_simp
  show "map_option (map_option (map cells \<circ> tbody))
        (positionsTable (final (renderPositionsTable (Array [pos_btc]) page0))) =
       Some (Some [[Text ''BTC/USD'', Text [], Text ''0'', Text [], Span ''badge success'' ''Open'']])"
    by (simp add: renderPositionsTable_def Let_def page0_def pos_btc_def get_def b)
qed

text \<open>
  C8. With no table in \<^verbatim>\<open>#table\<close>, \<open>exportCurrentTableCSV\<close> shows one alert and
  does nothing else: no file is handed over and the rest of the page is as before.
  The positions table has no part in the export: whatever \<^verbatim>\<open>#positionsTable\<close>
  holds, the export does the same and leaves it as it is.
\<close>

theorem exportCurrentTableCSV_no_table:
  "exportCurrentTableCSV (d\<lparr>table_div := None\<rparr>) =
     d\<lparr>table_div := None, alerts := alerts d @ [''No hay tabla para exportar'']\<rparr>
   \<and> downloads (exportCurrentTableCSV (d\<lparr>table_div := None\<rparr>)) = downloads d
   \<and> exportCurrentTableCSV (d\<lparr>positionsTable := pt\<rparr>) = (exportCurrentTableCSV d)\<lparr>positionsTable := pt\<rparr>
   \<and> downloads (exportCurrentTableCSV (page1\<lparr>table_div := None\<rparr>)) = []"
  by (simp add: exportCurrentTableCSV_def alert_def page1_def page0_def split: option.split)

text \<open>
  C9. A refresh of the symbol list that fetched an array of symbol strings leaves
  the selection control with exactly one option per entry, in the order of the
  array, the value and the text of each option being the symbol. The options the
  control had before have no part in the result. The status code of the response
  is not looked at.
\<close>

theorem fetchSymbols_replaces_options:
  "fetchSymbols \<lparr>status_code = sc, body = Some (Array (map Str syms))\<rparr> d =
     Returned (d\<lparr>symbolSel := map (\<lambda>s. \<lparr>opt_value = s, opt_text = s\<rparr>) syms\<rparr>)
   \<and> fetchSymbols \<lparr>status_code = sc, body = Some (Array (map Str syms))\<rparr> (d\<lparr>symbolSel := old\<rparr>) =
     fetchSymbols \<lparr>status_code = sc, body = Some (Array (map Str syms))\<rparr> d
   \<and> length (symbolSel (final (fetchSymbols \<lparr>status_code = sc, body = Some (Array (map Str syms))\<rparr> d))) =
     length syms
   \<and> map opt_value (symbolSel (final (fetchSymbols
         \<lparr>status_code = 200, body = Some (Array [Str ''BTCUSD'', Str ''ETHUSD''])\<rparr>
         (page0\<lparr>symbolSel := [\<lparr>opt_value = ''XRPUSD'', opt_text = ''XRPUSD''\<rparr>]\<rparr>)))) =
     [''BTCUSD'', ''ETHUSD'']"
  by (simp add: fetchSymbols_def foldl_snoc comp_def)




end
